theory Spec2Isabelle
  imports Complex_Main "HOL-Library.Product_Lexorder"
begin

section \<open>Variables of the country template: benefits\<close>

text \<open>
  The development embeds \<^verbatim>\<open>openfisca_country_template/variables/benefits.py\<close>.
  Amounts, ages and rates of the entities and parameters are finite Python and numpy
  floats; in the formulas they are idealised as real numbers, without rounding. The
  law of the vectorised conditional is stated on \<open>float64\<close> below, which adds the
  infinities and NaN. A numpy array over an entity batch is a list with one entry per
  entity.
\<close>

subsection \<open>Dates, periods, parameters, entities\<close>

text \<open>A calendar date is (year, month, day), ordered lexicographically.\<close>

type_synonym date = "nat \<times> nat \<times> nat"

datatype period_unit = MONTH

record period =
  unit :: period_unit
  start :: date

definition month :: "nat \<Rightarrow> nat \<Rightarrow> period" where
  "month y m = \<lparr>unit = MONTH, start = (y, m, 1)\<rparr>"

text \<open>
  The parameter tree is not part of the file; the formulas read five leaves of it
  through \<^verbatim>\<open>parameters(period)\<close>. The accessor is a function from the period
  to the record of the leaves in force.
\<close>

record general_parameters =
  age_of_majority :: real
  age_of_retirement :: real

record benefits_parameters =
  basic_income :: real
  housing_allowance :: real
  parenting_payment :: real

record parameters =
  general :: general_parameters
  benefits :: benefits_parameters

type_synonym parameter_accessor = "period \<Rightarrow> parameters"

text \<open>
  An entity is called with a variable name and a period:
  \<^verbatim>\<open>person('age', period)\<close> is the field \<open>age\<close> at the period. The role
  groups of a household hold its member persons in order.
\<close>

record Person =
  age :: "period \<Rightarrow> real"
  salary :: "period \<Rightarrow> real"

record Household =
  rent :: "period \<Rightarrow> real"
  income :: "period \<Rightarrow> real"
  age_of_youngest_child :: "period \<Rightarrow> real"
  parents :: "period \<Rightarrow> Person list"
  children :: "period \<Rightarrow> Person list"

text \<open>
  On a batch the call returns the array of the values of every member:
  \<open>ask age person period\<close> stands for \<^verbatim>\<open>person('age', period)\<close>.
\<close>

definition ask :: "('e \<Rightarrow> period \<Rightarrow> 'v) \<Rightarrow> 'e list \<Rightarrow> period \<Rightarrow> 'v list" where
  "ask field batch p = map (\<lambda>e. field e p) batch"

subsection \<open>The vectorised operators the formulas use\<close>

text \<open>
  A float is a finite value, an infinity or NaN. Finite values are reals: rounding and
  overflow are not modelled, and \<open>Finite 0\<close> stands for both zeros, which compare
  equal. The product follows IEEE 754: NaN is absorbing, zero times an infinity is NaN,
  and otherwise infinities multiply by sign.
\<close>

datatype float64 = Finite real | PosInf | NegInf | NaN

fun is_finite :: "float64 \<Rightarrow> bool" where
  "is_finite (Finite x) = True"
| "is_finite PosInf = False"
| "is_finite NegInf = False"
| "is_finite NaN = False"

instantiation float64 :: "{zero, one, times}"
begin

definition zero_float64 :: float64 where
  "zero_float64 = Finite 0"

definition one_float64 :: float64 where
  "one_float64 = Finite 1"

fun times_float64 :: "float64 \<Rightarrow> float64 \<Rightarrow> float64" where
  "times_float64 NaN y = NaN"
| "times_float64 x NaN = NaN"
| "times_float64 (Finite x) (Finite y) = Finite (x * y)"
| "times_float64 (Finite x) PosInf = (if x = 0 then NaN else if 0 < x then PosInf else NegInf)"
| "times_float64 (Finite x) NegInf = (if x = 0 then NaN else if 0 < x then NegInf else PosInf)"
| "times_float64 PosInf (Finite y) = (if y = 0 then NaN else if 0 < y then PosInf else NegInf)"
| "times_float64 NegInf (Finite y) = (if y = 0 then NaN else if 0 < y then NegInf else PosInf)"
| "times_float64 PosInf PosInf = PosInf"
| "times_float64 PosInf NegInf = NegInf"
| "times_float64 NegInf PosInf = NegInf"
| "times_float64 NegInf NegInf = PosInf"

instance ..

end

text \<open>
  Comparison of an array with a scalar is elementwise and gives a boolean mask.
  numpy's \<^verbatim>\<open>*\<close> on two boolean masks is the elementwise conjunction; on a mask
  and a number it converts the mask to 1 and 0 and multiplies in the type of the
  number. Two arrays must have the same length, or one of them length 1, which is
  then broadcast; other shapes raise \<^verbatim>\<open>ValueError\<close>.
\<close>

datatype error = UnboundLocalError | ValueError

definition ge_scalar :: "real list \<Rightarrow> real \<Rightarrow> bool list" where
  "ge_scalar xs c = map (\<lambda>x. x \<ge> c) xs"

definition eq_scalar :: "real list \<Rightarrow> real \<Rightarrow> bool list" where
  "eq_scalar xs c = map (\<lambda>x. x = c) xs"

definition lt_scalar :: "real list \<Rightarrow> real \<Rightarrow> bool list" where
  "lt_scalar xs c = map (\<lambda>x. x < c) xs"

definition le_scalar :: "real list \<Rightarrow> real \<Rightarrow> bool list" where
  "le_scalar xs c = map (\<lambda>x. x \<le> c) xs"

definition mask_and :: "bool list \<Rightarrow> bool list \<Rightarrow> bool list" where
  "mask_and m1 m2 = map2 (\<lambda>a b. a \<and> b) m1 m2"

definition mask_entry :: "bool \<Rightarrow> 'a::{zero, one}" where
  "mask_entry b = (if b then 1 else 0)"

definition mask_times_scalar :: "bool list \<Rightarrow> 'a::{zero, one, times} \<Rightarrow> 'a list" where
  "mask_times_scalar m v = map (\<lambda>b. mask_entry b * v) m"

definition mask_times :: "bool list \<Rightarrow> 'a::{zero, one, times} list \<Rightarrow> error + 'a list" where
  "mask_times m vs =
     (if length m = length vs then Inr (map2 (\<lambda>b v. mask_entry b * v) m vs)
      else (case vs of
              [v] \<Rightarrow> Inr (mask_times_scalar m v)
            | _ \<Rightarrow> (case m of
                      [b] \<Rightarrow> Inr (map (\<lambda>v. mask_entry b * v) vs)
                    | _ \<Rightarrow> Inl ValueError)))"

definition array_times_scalar :: "real list \<Rightarrow> real \<Rightarrow> real list" where
  "array_times_scalar xs c = map (\<lambda>x. x * c) xs"

subsection \<open>basic_income, housing_allowance, pension\<close>

definition formula_2016_12 :: "Person list \<Rightarrow> period \<Rightarrow> parameter_accessor \<Rightarrow> real list" where
  "formula_2016_12 person p params =
     (let age_condition = ge_scalar (ask age person p) (age_of_majority (general (params p)))
      in mask_times_scalar age_condition (basic_income (benefits (params p))))"

definition formula_2015_12 :: "Person list \<Rightarrow> period \<Rightarrow> parameter_accessor \<Rightarrow> real list" where
  "formula_2015_12 person p params =
     (let age_condition = ge_scalar (ask age person p) (age_of_majority (general (params p)));
          salary_condition = eq_scalar (ask salary person p) 0
      in mask_times_scalar (mask_and age_condition salary_condition)
           (basic_income (benefits (params p))))"

definition formula_1980 :: "Household list \<Rightarrow> period \<Rightarrow> parameter_accessor \<Rightarrow> real list" where
  "formula_1980 household p params =
     array_times_scalar (ask rent household p) (housing_allowance (benefits (params p)))"

definition pension_formula :: "Person list \<Rightarrow> period \<Rightarrow> parameter_accessor \<Rightarrow> bool list" where
  "pension_formula person p params =
     (let age_condition = ge_scalar (ask age person p) (age_of_retirement (general (params p)))
      in age_condition)"

subsection \<open>household_income and age_of_youngest_child\<close>

text \<open>
  Both formulas iterate over a role group of one household, member by member, on
  scalar values. The loop of \<^verbatim>\<open>household_income\<close> carries \<open>income\<close>.
\<close>

fun household_income_loop :: "Person list \<Rightarrow> period \<Rightarrow> real \<Rightarrow> real" where
  "household_income_loop [] p inc = inc"
| "household_income_loop (adult # adults) p inc =
     household_income_loop adults p (inc + salary adult p)"

definition household_income_formula :: "Household \<Rightarrow> period \<Rightarrow> parameter_accessor \<Rightarrow> real" where
  "household_income_formula household p params =
     (let adults = parents household p in household_income_loop adults p 0)"

text \<open>
  The loop of \<^verbatim>\<open>age_of_youngest_child\<close> carries two locals:
  \<open>min_age_in_years\<close>, and \<open>age\<close>, which is unbound (\<open>None\<close>) until the body has
  run once. Reading an unbound local raises \<^verbatim>\<open>UnboundLocalError\<close>.
\<close>

fun age_of_youngest_child_loop ::
  "Person list \<Rightarrow> period \<Rightarrow> real \<times> real option \<Rightarrow> real \<times> real option" where
  "age_of_youngest_child_loop [] p locals = locals"
| "age_of_youngest_child_loop (child # rest) p (min_age_in_years, _) =
     (let a = age child p
      in age_of_youngest_child_loop rest p
           (if a < min_age_in_years then a else min_age_in_years, Some a))"

definition age_of_youngest_child_formula ::
  "Household \<Rightarrow> period \<Rightarrow> parameter_accessor \<Rightarrow> error + real" where
  "age_of_youngest_child_formula household p params =
     (case age_of_youngest_child_loop (children household p) p (200, None) of
        (min_age_in_years, None) \<Rightarrow> Inl UnboundLocalError
      | (min_age_in_years, Some a) \<Rightarrow> Inr a)"

subsection \<open>Variable declarations and formula dispatch\<close>

text \<open>
  A variable class declares \<^verbatim>\<open>value_type\<close>, \<^verbatim>\<open>entity\<close> (here the entity
  type of its formulas), \<^verbatim>\<open>definition_period\<close>, optionally \<^verbatim>\<open>end\<close>, and its formulas.
  The method name carries the effective date: \<^verbatim>\<open>formula_2016_12\<close> applies from
  2016-12-01, \<^verbatim>\<open>formula_1980\<close> from 1980-01-01. The result of a formula is stored
  as an array of values of the declared type.
\<close>

datatype value_type = Float | Boolean

datatype "value" = Num real | Bool bool

type_synonym 'e formula = "'e list \<Rightarrow> period \<Rightarrow> parameter_accessor \<Rightarrow> value list"

record 'f Variable =
  value_type :: value_type
  definition_period :: period_unit
  end_date :: "date option"
  formulas :: "(date \<times> 'f) list"

definition basic_income_variable :: "Person formula Variable" where
  "basic_income_variable =
     \<lparr>value_type = Float, definition_period = MONTH, end_date = None,
      formulas =
        [((2016, 12, 1), \<lambda>person p params. map Num (formula_2016_12 person p params)),
         ((2015, 12, 1), \<lambda>person p params. map Num (formula_2015_12 person p params))]\<rparr>"

definition housing_allowance_variable :: "Household formula Variable" where
  "housing_allowance_variable =
     \<lparr>value_type = Float, definition_period = MONTH, end_date = Some (2016, 11, 30),
      formulas =
        [((1980, 1, 1), \<lambda>household p params. map Num (formula_1980 household p params))]\<rparr>"

text \<open>
  Modelled from the spec: the zero value of a value type, which is the default a
  variable resolves to when no formula applies (0.0 for numeric, false for boolean).
  The framework that holds it is not part of this repository.
\<close>

fun zero_value :: "value_type \<Rightarrow> value" where
  "zero_value Float = Num 0"
| "zero_value Boolean = Bool False"

text \<open>
  Modelled from the spec: the test whether the variable has an \<^verbatim>\<open>end\<close> before
  the start of the period; it belongs to the formula dispatcher, which is not part of
  this repository.
\<close>

definition ended :: "'f Variable \<Rightarrow> period \<Rightarrow> bool" where
  "ended v p = (case end_date v of None \<Rightarrow> False | Some e \<Rightarrow> e < start p)"

text \<open>
  Modelled from the spec: the formula dispatcher \<^verbatim>\<open>select_formula\<close> of the
  framework, which is not part of this repository. Among the formulas sorted by
  ascending effective date it returns the last one whose effective date is not after
  the start of the period, and none when the variable has ended or no formula
  qualifies. \<open>select_dated_formula\<close> also returns the effective date.
\<close>

definition select_dated_formula :: "'f Variable \<Rightarrow> period \<Rightarrow> (date \<times> 'f) option" where
  "select_dated_formula v p =
     (if ended v p then None
      else (case filter (\<lambda>df. fst df \<le> start p) (sort_key fst (formulas v)) of
              [] \<Rightarrow> None
            | q # qs \<Rightarrow> Some (last (q # qs))))"

text \<open>
  Modelled from the spec: \<^verbatim>\<open>select_formula(variable, period)\<close>, the contract of the
  dispatcher, which is not part of this repository: the formula alone, or none.
\<close>

definition select_formula :: "'f Variable \<Rightarrow> period \<Rightarrow> 'f option" where
  "select_formula v p = map_option snd (select_dated_formula v p)"

text \<open>
  Modelled from the spec: the resolution of a variable on an entity batch without the
  cache (dispatch, then the selected formula or the default for every member); the
  framework's resolver is not part of this repository.
\<close>

definition calculate :: "'e formula Variable \<Rightarrow> 'e list \<Rightarrow> period \<Rightarrow> parameter_accessor \<Rightarrow> value list" where
  "calculate v batch p params =
     (case select_formula v p of
        None \<Rightarrow> replicate (length batch) (zero_value (value_type v))
      | Some f \<Rightarrow> f batch p params)"

subsection \<open>Entities and parameters of the scenarios\<close>

definition person_with :: "real \<Rightarrow> real \<Rightarrow> Person" where
  "person_with a s = \<lparr>age = \<lambda>_. a, salary = \<lambda>_. s\<rparr>"

definition household_with :: "real \<Rightarrow> Person list \<Rightarrow> Person list \<Rightarrow> Household" where
  "household_with r ps cs =
     \<lparr>rent = \<lambda>_. r, income = \<lambda>_. 0, age_of_youngest_child = \<lambda>_. 0,
      parents = \<lambda>_. ps, children = \<lambda>_. cs\<rparr>"

definition scenario_parameters :: parameter_accessor where
  "scenario_parameters =
     (\<lambda>_. \<lparr>general = \<lparr>age_of_majority = 18, age_of_retirement = 65\<rparr>,
           benefits = \<lparr>basic_income = 600, housing_allowance = 1 / 10,
                       parenting_payment = 300\<rparr>\<rparr>)"

subsection \<open>parenting_allowance\<close>

text \<open>
  The formula applies Python's \<^verbatim>\<open>and\<close>, \<^verbatim>\<open>or\<close> and \<^verbatim>\<open>if\<close> to the
  results of array comparisons. An operand is a Python boolean or a numpy boolean
  array. The truth value of an array with one element is that element, of an empty
  array false (numpy 1), and of a longer array the \<^verbatim>\<open>ValueError\<close> "the truth value
  of an array with more than one element is ambiguous".
\<close>

datatype truthy = PyBool bool | Mask "bool list"

fun truth_value :: "truthy \<Rightarrow> error + bool" where
  "truth_value (PyBool b) = Inr b"
| "truth_value (Mask []) = Inr False"
| "truth_value (Mask [b]) = Inr b"
| "truth_value (Mask (b # c # bs)) = Inl ValueError"

text \<open>
  \<^verbatim>\<open>x and y\<close> is \<open>y\<close> when \<open>x\<close> is true and \<open>x\<close> otherwise; \<^verbatim>\<open>x or y\<close> is
  \<open>x\<close> when \<open>x\<close> is true and otherwise \<open>y\<close>, which is evaluated only then.
\<close>

definition py_and :: "truthy \<Rightarrow> truthy \<Rightarrow> error + truthy" where
  "py_and x y = (case truth_value x of Inl e \<Rightarrow> Inl e | Inr t \<Rightarrow> Inr (if t then y else x))"

definition py_or :: "error + truthy \<Rightarrow> error + truthy \<Rightarrow> error + truthy" where
  "py_or x y =
     (case x of
        Inl e \<Rightarrow> Inl e
      | Inr a \<Rightarrow> (case truth_value a of Inl e \<Rightarrow> Inl e | Inr t \<Rightarrow> if t then Inr a else y))"

text \<open>
  On a batch, \<^verbatim>\<open>household('parents', period)\<close> is read as the members in the role
  over the batch; for one household these are its parents, as in household_income.
\<close>

definition role_members :: "(Household \<Rightarrow> period \<Rightarrow> Person list) \<Rightarrow> Household list \<Rightarrow> period \<Rightarrow> Person list" where
  "role_members role batch p = concat (map (\<lambda>h. role h p) batch)"

definition parenting_allowance_formula ::
  "Household list \<Rightarrow> period \<Rightarrow> parameter_accessor \<Rightarrow> error + real" where
  "parenting_allowance_formula household p params =
     (let family_income = ask income household p;
          income_threshold = 500;
          youngest = ask age_of_youngest_child household p;
          is_single = (length (role_members parents household p) = 1)
      in case py_or (py_and (PyBool is_single) (Mask (lt_scalar youngest 8)))
                    (py_and (Mask (lt_scalar youngest 6))
                            (Mask (le_scalar family_income income_threshold))) of
           Inl e \<Rightarrow> Inl e
         | Inr is_eligible \<Rightarrow>
             (case truth_value is_eligible of
                Inl e \<Rightarrow> Inl e
              | Inr t \<Rightarrow> Inr (if t then parenting_payment (benefits (params p)) else 0)))"

definition family_with :: "real \<Rightarrow> real \<Rightarrow> Person list \<Rightarrow> Household" where
  "family_with inc youngest ps =
     \<lparr>rent = \<lambda>_. 0, income = \<lambda>_. inc, age_of_youngest_child = \<lambda>_. youngest,
      parents = \<lambda>_. ps, children = \<lambda>_. []\<rparr>"

subsection \<open>The value cache\<close>

text \<open>
  Modelled from the spec: the entity value resolver \<^verbatim>\<open>get_value\<close> with its
  per-run cache, which belongs to the framework and is not part of this repository.
  The cache is keyed by variable name, period and the identity range of the batch. A
  formula run by the resolver is a computation that requests other variables of the
  same batch (\<open>Get\<close>) and then returns its array. On a hit the cached array is
  returned; on a miss the dispatcher selects the formula, the formula runs with the
  resolver answering its requests, and the result is stored. A failed computation is
  not stored. An unknown variable is a lookup error, a period of another unit than the
  definition period a period mismatch, a request for a key that is being computed a
  circular definition. The first argument bounds the depth of nested requests. The
  list \<open>invoked\<close> records every formula invocation by its key.
\<close>

datatype engine_error = LookupError | PeriodMismatch | CircularDefinition | DepthExceeded

record 'e entity_batch =
  first_id :: nat
  members :: "'e list"

definition identity_range :: "'e entity_batch \<Rightarrow> nat \<times> nat" where
  "identity_range batch = (first_id batch, length (members batch))"

type_synonym cache_key = "string \<times> period \<times> nat \<times> nat"

record run_state =
  cache :: "cache_key \<rightharpoonup> value list"
  invoked :: "cache_key list"

text \<open>
  Modelled from the spec: a formula as the resolver runs it, with its requests for
  other variables made explicit; the resolver is not part of this repository.
\<close>

datatype computation =
    Return "value list"
  | Get string period "value list \<Rightarrow> computation"

type_synonym 'e engine_formula = "'e entity_batch \<Rightarrow> period \<Rightarrow> parameter_accessor \<Rightarrow> computation"

type_synonym resolver = "string \<Rightarrow> period \<Rightarrow> run_state \<Rightarrow> (engine_error + value list) \<times> run_state"

text \<open>
  Modelled from the spec: running a formula against the resolver, which is not part of
  this repository. A failed request ends the computation with its error.
\<close>

primrec run :: "resolver \<Rightarrow> computation \<Rightarrow> run_state \<Rightarrow> (engine_error + value list) \<times> run_state" where
  "run resolve (Return a) st = (Inr a, st)"
| "run resolve (Get name p k) st =
     (case resolve name p st of
        (Inl e, st') \<Rightarrow> (Inl e, st')
      | (Inr a, st') \<Rightarrow> run resolve (k a) st')"

text \<open>
  Modelled from the spec: \<^verbatim>\<open>get_value(entity_batch, variable_name, period)\<close>, which
  is not part of this repository; \<open>stack\<close> holds the keys being computed.
\<close>

primrec get_value ::
  "nat \<Rightarrow> (string \<rightharpoonup> 'e engine_formula Variable) \<Rightarrow> parameter_accessor \<Rightarrow> cache_key list \<Rightarrow>
   'e entity_batch \<Rightarrow> string \<Rightarrow> period \<Rightarrow> run_state \<Rightarrow> (engine_error + value list) \<times> run_state" where
  "get_value 0 variables params stack batch name p st = (Inl DepthExceeded, st)"
| "get_value (Suc depth) variables params stack batch name p st =
     (let key = (name, p, identity_range batch)
      in case cache st key of
           Some a \<Rightarrow> (Inr a, st)
         | None \<Rightarrow>
             (case variables name of
                None \<Rightarrow> (Inl LookupError, st)
              | Some v \<Rightarrow>
                  if unit p \<noteq> definition_period v then (Inl PeriodMismatch, st)
                  else if key \<in> set stack then (Inl CircularDefinition, st)
                  else
                    (case select_formula v p of
                       None \<Rightarrow>
                         (let a = replicate (length (members batch)) (zero_value (value_type v))
                          in (Inr a, st\<lparr>cache := (cache st)(key \<mapsto> a)\<rparr>))
                     | Some f \<Rightarrow>
                         (case run (get_value depth variables params (key # stack) batch)
                                 (f batch p params) (st\<lparr>invoked := key # invoked st\<rparr>) of
                            (Inl e, st') \<Rightarrow> (Inl e, st')
                          | (Inr a, st') \<Rightarrow> (Inr a, st'\<lparr>cache := (cache st')(key \<mapsto> a)\<rparr>)))))"

text \<open>How often the formula of a key has been invoked in a run.\<close>

definition invocations :: "cache_key \<Rightarrow> run_state \<Rightarrow> nat" where
  "invocations key st = count_list (invoked st) key"














text \<open>
  The array a computation returns when every request it makes is answered by
  \<open>look\<close>, and none when some request is not.
\<close>

primrec served_result :: "(string \<Rightarrow> period \<Rightarrow> value list option) \<Rightarrow> computation \<Rightarrow> value list option" where
  "served_result look (Return a) = Some a"
| "served_result look (Get name p k) =
     (case look name p of None \<Rightarrow> None | Some a \<Rightarrow> served_result look (k a))"

section \<open>Properties\<close>

subsection \<open>The vectorised conditional\<close>

lemma mask_entry_times_float64:
  "mask_entry b * (v :: float64) = (if b then v else if is_finite v then 0 else NaN)"
  by (cases v) (simp_all add: mask_entry_def zero_float64_def one_float64_def)

text \<open>
  C2: the claim is that for every mask and every value the product is the value where
  the mask is true and 0 where it is false. For an infinite value the product at a false
  entry is NaN, not 0.
\<close>

theorem mask_times_infinity_counterexample:
  "mask_times_scalar [False] PosInf = [NaN] \<and>
   mask_times_scalar [False] PosInf ! 0 \<noteq> (if [False] ! 0 then PosInf else 0)"
  by (simp add: mask_times_scalar_def mask_entry_times_float64 zero_float64_def)

text \<open>
  C2, amended: for every boolean mask \<open>m\<close> and every scalar \<open>v\<close> or array \<open>vs\<close>
  of matching length, the product has the length of the mask and equals the value at
  every index where the mask is true; where the mask is false it is 0 when the value is
  finite, and NaN when the value is an infinity or NaN. This covers length 0.
\<close>

theorem mask_times_is_conditional_select:
  fixes v :: float64 and vs :: "float64 list"
  shows "length (mask_times_scalar m v) = length m \<and>
     (\<forall>i<length m. mask_times_scalar m v ! i
        = (if m ! i then v else if is_finite v then 0 else NaN)) \<and>
     (length vs = length m \<longrightarrow>
        (\<exists>r. mask_times m vs = Inr r \<and> length r = length m \<and>
           (\<forall>i<length m. r ! i
              = (if m ! i then vs ! i else if is_finite (vs ! i) then 0 else NaN))))"
  by (simp add: mask_times_scalar_def mask_times_def mask_entry_times_float64)

theorem mask_times_is_conditional_select_witness:
  "length [Finite 10, PosInf, Finite 30] = length [True, False, True] \<and>
   mask_times_scalar [True, False, True] (Finite 600) = [Finite 600, 0, Finite 600] \<and>
   mask_times_scalar [True, False] NegInf = [NegInf, NaN] \<and>
   mask_times [True, False, True] [Finite 10, PosInf, Finite 30]
     = Inr [Finite 10, NaN, Finite 30] \<and>
   mask_times [False, False, True] [Finite 10, Finite 20, Finite 30]
     = Inr [0, 0, Finite 30] \<and>
   mask_times_scalar [] (Finite 600) = [] \<and> mask_times [] ([] :: float64 list) = Inr []"
  using mask_times_is_conditional_select
      [of "[True, False, True]" "Finite 600" "[Finite 10, PosInf, Finite 30]"]
    mask_times_is_conditional_select
      [of "[True, False]" NegInf "[Finite 10, Finite 20]"]
    mask_times_is_conditional_select [of "[]" "Finite 600" "[]"]
  by (simp add: mask_times_scalar_def mask_times_def mask_entry_times_float64)

subsection \<open>Household reductions\<close>

lemma household_income_loop_sum:
  "household_income_loop adults p inc = inc + (\<Sum>a\<leftarrow>adults. salary a p)"
  by (induction adults arbitrary: inc) (simp_all add: add.assoc)

text \<open>
  C9: household_income is the sum, over the parents of the household, of each
  parent's salary for the period; for two parents with salaries 1000 and 1500 it is 2500.
\<close>

theorem household_income_is_sum_of_parents_salaries:
  "household_income_formula household p params = (\<Sum>a\<leftarrow>parents household p. salary a p) \<and>
   (parents household p = [a1, a2] \<longrightarrow> salary a1 p = 1000 \<longrightarrow> salary a2 p = 1500 \<longrightarrow>
      household_income_formula household p params = 2500)"
  by (simp add: household_income_formula_def household_income_loop_sum)

theorem household_income_is_sum_of_parents_salaries_witness:
  "parents (household_with 0 [person_with 40 1000, person_with 38 1500] []) (month 2016 1)
     = [person_with 40 1000, person_with 38 1500] \<and>
   salary (person_with 40 1000) (month 2016 1) = 1000 \<and>
   salary (person_with 38 1500) (month 2016 1) = 1500 \<and>
   household_income_formula (household_with 0 [person_with 40 1000, person_with 38 1500] [])
     (month 2016 1) scenario_parameters = 2500"
  using household_income_is_sum_of_parents_salaries
    [of "household_with 0 [person_with 40 1000, person_with 38 1500] []" "month 2016 1" scenario_parameters
        "person_with 40 1000" "person_with 38 1500"]
  by (simp add: household_with_def person_with_def)

lemma age_of_youngest_child_loop_last:
  "age_of_youngest_child_loop (xs @ [c]) p locals' = (m, a) \<Longrightarrow> a = Some (age c p)"
  by (induction xs p locals' rule: age_of_youngest_child_loop.induct) (auto simp: Let_def)

lemma age_of_youngest_child_formula_last:
  assumes "children household p \<noteq> []"
  shows "age_of_youngest_child_formula household p params = Inr (age (last (children household p)) p)"
proof -
  from assms obtain xs c where xs: "children household p = xs @ [c]"
    by (metis append_butlast_last_id)
  obtain m a where l: "age_of_youngest_child_loop (xs @ [c]) p (200, None) = (m, a)"
    by (cases "age_of_youngest_child_loop (xs @ [c]) p (200, None)")
  from age_of_youngest_child_loop_last [OF l] have "a = Some (age c p)" .
  with l xs show ?thesis by (simp add: age_of_youngest_child_formula_def)
qed

text \<open>
  C3: the claim is that with children the formula returns the minimum of their ages.
  The formula returns the local \<open>age\<close>, the age of the last child of the loop, not
  \<open>min_age_in_years\<close>: for children aged 3 and 7, in this order, it returns 7 while
  the minimum is 3.
\<close>

theorem age_of_youngest_child_returns_last_age:
  "age_of_youngest_child_formula (household_with 0 [] [person_with 3 0, person_with 7 0]) p params = Inr 7 \<and>
   Min (set (map (\<lambda>c. age c p) (children (household_with 0 [] [person_with 3 0, person_with 7 0]) p))) = 3"
  by (simp add: age_of_youngest_child_formula_def household_with_def person_with_def)

text \<open>
  C10: for a household with no children the formula returns no value: the loop body never
  binds \<open>age\<close> and the return statement raises the unbound-local error; the
  sentinel 200 is not returned.
\<close>

theorem age_of_youngest_child_childless_unbound:
  "children household p = [] \<Longrightarrow>
     age_of_youngest_child_formula household p params = Inl UnboundLocalError \<and>
     age_of_youngest_child_formula household p params \<noteq> Inr 200"
  by (simp add: age_of_youngest_child_formula_def)

theorem age_of_youngest_child_childless_unbound_witness:
  "children (household_with 0 [person_with 30 0] []) (month 2016 1) = [] \<and>
   age_of_youngest_child_formula (household_with 0 [person_with 30 0] []) (month 2016 1) scenario_parameters
     = Inl UnboundLocalError \<and>
   age_of_youngest_child_formula (household_with 0 [person_with 30 0] []) (month 2016 1) scenario_parameters
     \<noteq> Inr 200"
proof -
  have h: "children (household_with 0 [person_with 30 0] []) (month 2016 1) = []"
    by (simp add: household_with_def)
  show ?thesis
    using h age_of_youngest_child_childless_unbound [OF h, of scenario_parameters] by simp
qed

subsection \<open>Formula dispatch\<close>

lemma sorted_last_greatest:
  "sorted (map f xs) \<Longrightarrow> x \<in> set xs \<Longrightarrow> f x \<le> f (last xs)"
  by (induction xs) (auto split: if_splits)

lemma select_dated_formula_Some:
  assumes "select_dated_formula v p = Some (d, f)"
  shows "\<not> ended v p" and "(d, f) \<in> set (formulas v)" and "d \<le> start p"
    and "\<And>d' f'. (d', f') \<in> set (formulas v) \<Longrightarrow> d' \<le> start p \<Longrightarrow> d' \<le> d"
proof -
  let ?qs = "filter (\<lambda>df. fst df \<le> start p) (sort_key fst (formulas v))"
  from assms show ne: "\<not> ended v p"
    by (auto simp: select_dated_formula_def split: if_splits)
  with assms have qs: "?qs \<noteq> []" and l: "last ?qs = (d, f)"
    by (auto simp: select_dated_formula_def split: list.splits)
  from qs have "last ?qs \<in> set ?qs" by (rule last_in_set)
  with l show "(d, f) \<in> set (formulas v)" and "d \<le> start p" by auto
  have srt: "sorted (map fst ?qs)" by (rule sorted_filter) simp
  fix d' f' assume "(d', f') \<in> set (formulas v)" "d' \<le> start p"
  then have "(d', f') \<in> set ?qs" by simp
  from sorted_last_greatest [OF srt this] l show "d' \<le> d" by simp
qed

lemma select_dated_formula_None:
  "select_dated_formula v p = None \<longleftrightarrow>
     ended v p \<or> (\<forall>df \<in> set (formulas v). \<not> fst df \<le> start p)"
proof -
  let ?qs = "filter (\<lambda>df. fst df \<le> start p) (sort_key fst (formulas v))"
  have "?qs = [] \<longleftrightarrow> (\<forall>df \<in> set (formulas v). \<not> fst df \<le> start p)"
    by (simp add: filter_empty_conv)
  then show ?thesis
    by (cases ?qs) (simp_all add: select_dated_formula_def)
qed

lemma select_basic_income_2016_12:
  "(2016, 12, 1) \<le> start p \<Longrightarrow>
   select_dated_formula basic_income_variable p =
     Some ((2016, 12, 1), \<lambda>person p params. map Num (formula_2016_12 person p params))"
  by (simp add: select_dated_formula_def ended_def basic_income_variable_def)

lemma select_basic_income_2015_12:
  "(2015, 12, 1) \<le> start p \<Longrightarrow> \<not> (2016, 12, 1) \<le> start p \<Longrightarrow>
   select_dated_formula basic_income_variable p =
     Some ((2015, 12, 1), \<lambda>person p params. map Num (formula_2015_12 person p params))"
  by (simp add: select_dated_formula_def ended_def basic_income_variable_def)

lemma select_basic_income_before:
  "\<not> (2015, 12, 1) \<le> start p \<Longrightarrow> select_dated_formula basic_income_variable p = None"
proof -
  assume a: "\<not> (2015, 12, 1) \<le> start p"
  have "(2015, 12, 1) \<le> ((2016, 12, 1) :: date)" by simp
  with a have "\<not> (2016, 12, 1) \<le> start p" by (meson order_trans)
  with a show ?thesis
    by (simp add: select_dated_formula_def ended_def basic_income_variable_def)
qed

text \<open>
  C1: when the variable's end date is before the start of the period, or no formula has an
  effective date up to the start of the period, no formula is selected; otherwise the
  dispatcher selects the last formula, in ascending order of effective date, whose
  effective date is at most the start of the period, and no qualifying formula has a
  later date. With no formula selected every member of the batch gets the zero value of
  the type (0.0 for numeric, false for boolean); basic_income for 2010-01 is 0.0.
\<close>

theorem formula_dispatcher_selects_last_effective:
  "((\<exists>e. end_date v = Some e \<and> e < start p) \<longrightarrow> select_formula v p = None) \<and>
   ((\<forall>df \<in> set (formulas v). \<not> fst df \<le> start p) \<longrightarrow> select_formula v p = None) \<and>
   (\<not> (\<exists>e. end_date v = Some e \<and> e < start p) \<and> (\<exists>df \<in> set (formulas v). fst df \<le> start p) \<longrightarrow>
      (\<exists>d f. select_dated_formula v p = Some (d, f) \<and> select_formula v p = Some f \<and>
         (d, f) = last (filter (\<lambda>df. fst df \<le> start p) (sort_key fst (formulas v))) \<and>
         (d, f) \<in> set (formulas v) \<and> d \<le> start p \<and>
         (\<forall>df \<in> set (formulas v). fst df \<le> start p \<longrightarrow> fst df \<le> d))) \<and>
   (select_formula v p = None \<longrightarrow>
      calculate v batch p params = replicate (length batch) (zero_value (value_type v))) \<and>
   zero_value Float = Num 0 \<and> zero_value Boolean = Bool False \<and>
   calculate basic_income_variable persons (month 2010 1) params
     = replicate (length persons) (Num 0)"
proof -
  have e: "ended v p \<longleftrightarrow> (\<exists>e. end_date v = Some e \<and> e < start p)"
    by (simp add: ended_def split: option.splits)
  have n: "select_formula v p = None \<longleftrightarrow> select_dated_formula v p = None"
    by (simp add: select_formula_def)
  have c1: "(\<exists>e. end_date v = Some e \<and> e < start p) \<longrightarrow> select_formula v p = None"
    by (simp only: n select_dated_formula_None e) simp
  have c2: "(\<forall>df \<in> set (formulas v). \<not> fst df \<le> start p) \<longrightarrow> select_formula v p = None"
    by (simp only: n select_dated_formula_None) simp
  have c3: "\<not> (\<exists>e. end_date v = Some e \<and> e < start p) \<and> (\<exists>df \<in> set (formulas v). fst df \<le> start p) \<longrightarrow>
      (\<exists>d f. select_dated_formula v p = Some (d, f) \<and> select_formula v p = Some f \<and>
         (d, f) = last (filter (\<lambda>df. fst df \<le> start p) (sort_key fst (formulas v))) \<and>
         (d, f) \<in> set (formulas v) \<and> d \<le> start p \<and>
         (\<forall>df \<in> set (formulas v). fst df \<le> start p \<longrightarrow> fst df \<le> d))"
  proof
    assume a: "\<not> (\<exists>e. end_date v = Some e \<and> e < start p) \<and> (\<exists>df \<in> set (formulas v). fst df \<le> start p)"
    then have "select_dated_formula v p \<noteq> None"
      by (simp only: select_dated_formula_None e) simp
    then obtain d f where s: "select_dated_formula v p = Some (d, f)" by auto
    have l: "(d, f) = last (filter (\<lambda>df. fst df \<le> start p) (sort_key fst (formulas v)))"
      using s by (auto simp: select_dated_formula_def split: if_splits list.splits)
    have m: "\<forall>df \<in> set (formulas v). fst df \<le> start p \<longrightarrow> fst df \<le> d"
      using select_dated_formula_Some(4) [OF s] by auto
    have sf: "select_formula v p = Some f"
      using s by (simp add: select_formula_def)
    from s sf l m select_dated_formula_Some(2,3) [OF s]
    show "\<exists>d f. select_dated_formula v p = Some (d, f) \<and> select_formula v p = Some f \<and>
         (d, f) = last (filter (\<lambda>df. fst df \<le> start p) (sort_key fst (formulas v))) \<and>
         (d, f) \<in> set (formulas v) \<and> d \<le> start p \<and>
         (\<forall>df \<in> set (formulas v). fst df \<le> start p \<longrightarrow> fst df \<le> d)"
      by blast
  qed
  have c4: "select_formula v p = None \<longrightarrow>
      calculate v batch p params = replicate (length batch) (zero_value (value_type v))"
    by (simp add: calculate_def)
  have "select_formula basic_income_variable (month 2010 1) = None"
    by (simp add: select_formula_def select_basic_income_before month_def)
  then have c5: "calculate basic_income_variable persons (month 2010 1) params
     = replicate (length persons) (Num 0)"
    by (simp add: calculate_def basic_income_variable_def)
  from c1 c2 c3 c4 c5 show ?thesis by simp
qed

theorem formula_dispatcher_selects_last_effective_witness:
  "end_date housing_allowance_variable = Some (2016, 11, 30) \<and>
   (2016, 11, 30) < start (month 2017 1) \<and>
   select_formula housing_allowance_variable (month 2017 1) = None \<and>
   calculate housing_allowance_variable [household_with 500 [] []] (month 2017 1) scenario_parameters
     = [Num 0] \<and>
   list_all (\<lambda>df. \<not> fst df \<le> start (month 2010 1)) (formulas basic_income_variable) \<and>
   select_formula basic_income_variable (month 2010 1) = None \<and>
   end_date basic_income_variable = None \<and>
   list_ex (\<lambda>df. fst df \<le> start (month 2016 5)) (formulas basic_income_variable) \<and>
   map_option fst (select_dated_formula basic_income_variable (month 2016 5)) = Some (2015, 12, 1)"
  using formula_dispatcher_selects_last_effective
      [of housing_allowance_variable "month 2017 1" "[household_with 500 [] []]" scenario_parameters "[]"]
    formula_dispatcher_selects_last_effective
      [of basic_income_variable "month 2010 1" "[]" scenario_parameters "[]"]
    formula_dispatcher_selects_last_effective
      [of basic_income_variable "month 2016 5" "[]" scenario_parameters "[]"]
  by (simp add: housing_allowance_variable_def basic_income_variable_def month_def
      select_basic_income_2015_12 [unfolded basic_income_variable_def])

text \<open>
  C6: for any period the dispatcher returns one formula or none, and for two periods, the
  first starting strictly before the second, the formula selected for the second never
  has an earlier effective date than the formula selected for the first.
\<close>

theorem select_formula_monotonic:
  "(select_formula v p = None \<or> (\<exists>!f. select_formula v p = Some f)) \<and>
   (start p1 < start p2 \<longrightarrow> select_dated_formula v p1 = Some (d1, f1) \<longrightarrow>
      select_dated_formula v p2 = Some (d2, f2) \<longrightarrow> d1 \<le> d2)"
proof -
  have "d1 \<le> d2"
    if lt: "start p1 < start p2" and s1: "select_dated_formula v p1 = Some (d1, f1)"
      and s2: "select_dated_formula v p2 = Some (d2, f2)"
  proof -
    from select_dated_formula_Some(2,3) [OF s1] lt
    have "(d1, f1) \<in> set (formulas v)" and "d1 \<le> start p2" by auto
    then show ?thesis by (rule select_dated_formula_Some(4) [OF s2])
  qed
  then show ?thesis by auto
qed

theorem select_formula_monotonic_witness:
  "start (month 2016 5) < start (month 2017 1) \<and>
   select_dated_formula basic_income_variable (month 2016 5) =
     Some ((2015, 12, 1), \<lambda>person p params. map Num (formula_2015_12 person p params)) \<and>
   select_dated_formula basic_income_variable (month 2017 1) =
     Some ((2016, 12, 1), \<lambda>person p params. map Num (formula_2016_12 person p params)) \<and>
   (2015, 12, 1) \<le> ((2016, 12, 1) :: date)"
  using select_formula_monotonic
      [of basic_income_variable "month 2016 5" "month 2016 5" "month 2017 1" "(2015, 12, 1)"
          "\<lambda>person p params. map Num (formula_2015_12 person p params)" "(2016, 12, 1)"
          "\<lambda>person p params. map Num (formula_2016_12 person p params)"]
  by (simp add: month_def select_basic_income_2015_12 select_basic_income_2016_12)

subsection \<open>Scenarios\<close>

text \<open>
  C7: for a person aged 20 in 2015-12, with age of majority 18 and basic income 600, the
  formula in force is the salary-conditioned one of 2015-12, and basic_income is 600
  when the salary of the period is 0 and 0 when it is 100.
\<close>

theorem basic_income_scenario_2015_12:
  assumes "age person (month 2015 12) = 20"
    and "age_of_majority (general (params (month 2015 12))) = 18"
    and "basic_income (benefits (params (month 2015 12))) = 600"
  shows "select_formula basic_income_variable (month 2015 12) =
           Some (\<lambda>person p params. map Num (formula_2015_12 person p params)) \<and>
         (salary person (month 2015 12) = 0 \<longrightarrow>
            formula_2015_12 [person] (month 2015 12) params = [600] \<and>
            calculate basic_income_variable [person] (month 2015 12) params = [Num 600]) \<and>
         (salary person (month 2015 12) = 100 \<longrightarrow>
            formula_2015_12 [person] (month 2015 12) params = [0] \<and>
            calculate basic_income_variable [person] (month 2015 12) params = [Num 0])"
proof -
  have s: "select_formula basic_income_variable (month 2015 12) =
           Some (\<lambda>person p params. map Num (formula_2015_12 person p params))"
    by (simp add: select_formula_def select_basic_income_2015_12 month_def)
  show ?thesis
    using assms
    by (simp add: s calculate_def formula_2015_12_def ask_def ge_scalar_def eq_scalar_def
        mask_and_def mask_times_scalar_def mask_entry_def)
qed

theorem basic_income_scenario_2015_12_witness:
  "age (person_with 20 0) (month 2015 12) = 20 \<and>
   age (person_with 20 100) (month 2015 12) = 20 \<and>
   age_of_majority (general (scenario_parameters (month 2015 12))) = 18 \<and>
   basic_income (benefits (scenario_parameters (month 2015 12))) = 600 \<and>
   salary (person_with 20 0) (month 2015 12) = 0 \<and>
   salary (person_with 20 100) (month 2015 12) = 100 \<and>
   calculate basic_income_variable [person_with 20 0] (month 2015 12) scenario_parameters
     = [Num 600] \<and>
   calculate basic_income_variable [person_with 20 100] (month 2015 12) scenario_parameters
     = [Num 0]"
  using basic_income_scenario_2015_12 [of "person_with 20 0" scenario_parameters]
    basic_income_scenario_2015_12 [of "person_with 20 100" scenario_parameters]
  by (simp add: person_with_def scenario_parameters_def)

text \<open>
  C8: for a household with rent 500 and rate 0.1, housing_allowance is 50 for 2016-11 and 0
  for 2017-01, which is after the end date 2016-11-30.
\<close>

theorem housing_allowance_scenario:
  assumes "rent household (month 2016 11) = 500"
    and "housing_allowance (benefits (params (month 2016 11))) = 1 / 10"
  shows "formula_1980 [household] (month 2016 11) params = [50] \<and>
         calculate housing_allowance_variable [household] (month 2016 11) params = [Num 50] \<and>
         end_date housing_allowance_variable = Some (2016, 11, 30) \<and>
         (2016, 11, 30) < start (month 2017 1) \<and>
         calculate housing_allowance_variable [household] (month 2017 1) params = [Num 0]"
proof -
  have a: "select_formula housing_allowance_variable (month 2016 11) =
       Some (\<lambda>household p params. map Num (formula_1980 household p params))"
    by (simp add: select_formula_def select_dated_formula_def ended_def
        housing_allowance_variable_def month_def)
  have b: "select_formula housing_allowance_variable (month 2017 1) = None"
    by (simp add: select_formula_def select_dated_formula_def ended_def
        housing_allowance_variable_def month_def)
  have v: "value_type housing_allowance_variable = Float"
    by (simp add: housing_allowance_variable_def)
  have r1: "calculate housing_allowance_variable [household] (month 2016 11) params
      = map Num (formula_1980 [household] (month 2016 11) params)"
    by (simp only: calculate_def a option.case)
  have r2: "calculate housing_allowance_variable [household] (month 2017 1) params = [Num 0]"
    by (simp only: calculate_def b option.case v) simp
  have f: "formula_1980 [household] (month 2016 11) params = [50]"
    using assms by (simp add: formula_1980_def ask_def array_times_scalar_def)
  have e: "end_date housing_allowance_variable = Some (2016, 11, 30)"
    by (simp add: housing_allowance_variable_def)
  have l: "(2016, 11, 30) < start (month 2017 1)"
    by (simp add: month_def)
  from f e l show ?thesis
    by (simp only: r1 r2) simp
qed

theorem housing_allowance_scenario_witness:
  "rent (household_with 500 [] []) (month 2016 11) = 500 \<and>
   housing_allowance (benefits (scenario_parameters (month 2016 11))) = 1 / 10 \<and>
   calculate housing_allowance_variable [household_with 500 [] []] (month 2016 11)
     scenario_parameters = [Num 50] \<and>
   calculate housing_allowance_variable [household_with 500 [] []] (month 2017 1)
     scenario_parameters = [Num 0]"
  using housing_allowance_scenario [of "household_with 500 [] []" scenario_parameters]
  by (simp add: household_with_def scenario_parameters_def)

subsection \<open>parenting_allowance on a batch\<close>

lemma truth_value_long:
  assumes "2 \<le> length bs"
  shows "truth_value (Mask bs) = Inl ValueError"
proof (cases bs)
  case Nil
  with assms show ?thesis by simp
next
  case (Cons b cs)
  with assms show ?thesis by (cases cs) simp_all
qed

lemma parenting_allowance_batch_raises:
  assumes "2 \<le> length household"
  shows "parenting_allowance_formula household p params = Inl ValueError"
proof -
  let ?y = "ask age_of_youngest_child household p"
  have l8: "truth_value (Mask (lt_scalar ?y 8)) = Inl ValueError"
    and l6: "truth_value (Mask (lt_scalar ?y 6)) = Inl ValueError"
    using assms by (simp_all add: truth_value_long lt_scalar_def ask_def)
  show ?thesis
    by (cases "length (role_members parents household p) = 1")
      (simp_all add: parenting_allowance_formula_def py_or_def py_and_def l8 l6)
qed

lemma parenting_allowance_single:
  "parenting_allowance_formula [h] p params =
     Inr (if (length (parents h p) = 1 \<and> age_of_youngest_child h p < 8) \<or>
             (age_of_youngest_child h p < 6 \<and> income h p \<le> 500)
          then parenting_payment (benefits (params p)) else 0)"
  by (auto simp add: parenting_allowance_formula_def py_or_def py_and_def role_members_def
      ask_def lt_scalar_def le_scalar_def Let_def)

text \<open>
  C4: the claim is that every formula returns one value for every member of the batch,
  and that parenting_allowance on n households yields n per-household values. The
  vectorised formulas (basic_income, pension, housing_allowance) return an array of the
  length of the batch. parenting_allowance does not: it returns one scalar, and on two
  households, one eligible (the payment, 300, alone) and one not (0 alone), the
  truth value of a two-element mask raises ValueError.
\<close>

theorem parenting_allowance_not_vectorised:
  "length (formula_2016_12 persons p params) = length persons \<and>
   length (formula_2015_12 persons p params) = length persons \<and>
   length (pension_formula persons p params) = length persons \<and>
   length (formula_1980 households p params) = length households \<and>
   parenting_allowance_formula
     [family_with 100 3 [person_with 30 100],
      family_with 1000 10 [person_with 40 500, person_with 41 500]]
     (month 2016 1) scenario_parameters = Inl ValueError \<and>
   parenting_allowance_formula [family_with 100 3 [person_with 30 100]]
     (month 2016 1) scenario_parameters = Inr 300 \<and>
   parenting_allowance_formula [family_with 1000 10 [person_with 40 500, person_with 41 500]]
     (month 2016 1) scenario_parameters = Inr 0"
proof -
  have "length (formula_2016_12 persons p params) = length persons"
    by (simp add: formula_2016_12_def mask_times_scalar_def ge_scalar_def ask_def)
  moreover have "length (formula_2015_12 persons p params) = length persons"
    by (simp add: formula_2015_12_def mask_times_scalar_def mask_and_def ge_scalar_def
        eq_scalar_def ask_def)
  moreover have "length (pension_formula persons p params) = length persons"
    by (simp add: pension_formula_def ge_scalar_def ask_def)
  moreover have "length (formula_1980 households p params) = length households"
    by (simp add: formula_1980_def array_times_scalar_def ask_def)
  moreover have "parenting_allowance_formula
     [family_with 100 3 [person_with 30 100],
      family_with 1000 10 [person_with 40 500, person_with 41 500]]
     (month 2016 1) scenario_parameters = Inl ValueError"
    by (rule parenting_allowance_batch_raises) simp
  moreover have "parenting_allowance_formula [family_with 100 3 [person_with 30 100]]
     (month 2016 1) scenario_parameters = Inr 300"
    by (simp add: parenting_allowance_single family_with_def scenario_parameters_def)
  moreover have "parenting_allowance_formula
     [family_with 1000 10 [person_with 40 500, person_with 41 500]]
     (month 2016 1) scenario_parameters = Inr 0"
    by (simp add: parenting_allowance_single family_with_def scenario_parameters_def)
  ultimately show ?thesis by simp
qed

subsection \<open>Idempotence of the cached resolver\<close>

lemma invocations_cache_update [simp]:
  "invocations k (st\<lparr>cache := c\<rparr>) = invocations k st"
  by (simp add: invocations_def)

lemma invocations_invoked_update [simp]:
  "invocations k (st\<lparr>invoked := key # invoked st\<rparr>) =
     (if key = k then Suc (invocations k st) else invocations k st)"
  by (simp add: invocations_def)
















lemma run_served:
  assumes "\<And>name p a. look name p = Some a \<Longrightarrow> res name p st = (Inr a, st)"
  shows "served_result look c = Some a \<Longrightarrow> run res c st = (Inr a, st)"
proof (induction c)
  case (Return b)
  then show ?case by simp
next
  case (Get name p cont)
  then obtain b where b: "look name p = Some b" and r: "served_result look (cont b) = Some a"
    by (auto split: option.splits)
  from r have "run res (cont b) st = (Inr a, st)"
    by (rule Get.IH [OF rangeI])
  with assms [OF b] show ?case by simp
qed

lemma get_value_default:
  assumes "cache st (name, p, identity_range batch) = None"
    and "variables name = Some v"
    and "unit p = definition_period v"
    and "(name, p, identity_range batch) \<notin> set stack"
    and "select_formula v p = None"
  shows "get_value (Suc d) variables params stack batch name p st =
     (Inr (replicate (length (members batch)) (zero_value (value_type v))),
      st\<lparr>cache := (cache st)((name, p, identity_range batch) \<mapsto>
            replicate (length (members batch)) (zero_value (value_type v)))\<rparr>)"
  using assms by (simp add: Let_def)

lemma get_value_served:
  assumes miss: "cache st (name, p, identity_range batch) = None"
    and var: "variables name = Some v"
    and un: "unit p = definition_period v"
    and ns: "(name, p, identity_range batch) \<notin> set stack"
    and sel: "select_formula v p = Some f"
    and srv: "served_result (\<lambda>n q. cache st (n, q, identity_range batch)) (f batch p params) = Some a"
  shows "get_value (Suc (Suc d)) variables params stack batch name p st =
     (Inr a, st\<lparr>invoked := (name, p, identity_range batch) # invoked st,
               cache := (cache st)((name, p, identity_range batch) \<mapsto> a)\<rparr>)"
proof -
  let ?key = "(name, p, identity_range batch)"
  let ?s1 = "st\<lparr>invoked := ?key # invoked st\<rparr>"
  have hit: "get_value (Suc d) variables params (?key # stack) batch n q ?s1 = (Inr b, ?s1)"
    if "cache st (n, q, identity_range batch) = Some b" for n q b
    using that by simp
  have "run (get_value (Suc d) variables params (?key # stack) batch) (f batch p params) ?s1
      = (Inr a, ?s1)"
    using run_served
      [of "\<lambda>n q. cache st (n, q, identity_range batch)"
          "get_value (Suc d) variables params (?key # stack) batch" ?s1, OF hit srv] .
  with miss var un ns sel show ?thesis
    by (subst get_value.simps) (simp add: Let_def del: get_value.simps)
qed





end
